theory Spec2Isabelle
  imports Main "HOL-Library.Word"
begin

section \<open>JavaScript values as the handler sees them\<close>

text \<open>
  A JavaScript string is a sequence of UTF-16 code units; \<open>length\<close>, \<open>slice\<close> and
  \<open>trim\<close> of the source all count and cut code units.
\<close>

type_synonym jsstring = "16 word list"

definition u16 :: "string \<Rightarrow> jsstring" where
  "u16 s = map of_char s"

text \<open>
  The values that reach the handler come out of a JSON parser (the request body, the
  upstream reply), so there are no functions, symbols or sparse arrays among them.
  The handler never calculates with a number: it only tests it for truthiness and turns
  it into text. A number is therefore carried by the decimal text that the engine's
  number-to-string conversion gives it (\<open>0\<close> for both zeros).
  An object is its list of own properties; a lookup takes the first binding of a name.
\<close>

datatype jsval =
    JUndefined
  | JNull
  | JBool bool
  | JNum jsstring
  | JStr jsstring
  | JArr "jsval list"
  | JObj "(jsstring \<times> jsval) list"

text \<open>
  What the handler's own code can throw, and what the runtime throws into it. The wording
  of an engine's message is not part of the source, so an error is kept symbolic and the
  runtime supplies \<open>String(e)\<close>.
\<close>

datatype js_error =
    ReadOfNullish jsstring
      \<comment> \<open>TypeError: reading the named property of undefined or null\<close>
  | NotAFunction jsstring
      \<comment> \<open>TypeError: calling the named property, which is not a function\<close>
  | NotPrimitive
      \<comment> \<open>TypeError: an object that cannot be converted to a primitive value\<close>
  | Thrown jsstring jsstring
      \<comment> \<open>an error raised by the runtime (fetch, JSON.parse, ...): name and message\<close>

text \<open>Truthiness, as \<open>!x\<close> and \<open>x || y\<close> test it.\<close>

fun truthy :: "jsval \<Rightarrow> bool" where
  "truthy JUndefined = False"
| "truthy JNull = False"
| "truthy (JBool b) = b"
| "truthy (JNum n) = (n \<noteq> u16 ''0'' \<and> n \<noteq> u16 ''NaN'')"
| "truthy (JStr s) = (s \<noteq> [])"
| "truthy (JArr xs) = True"
| "truthy (JObj kvs) = True"

definition js_or :: "jsval \<Rightarrow> jsval \<Rightarrow> jsval" where
  "js_or a b = (if truthy a then a else b)"

text \<open>
  Reading a property \<open>v.name\<close>. The handler reads only the names \<open>text\<close>,
  \<open>output_text\<close>, \<open>output\<close>, \<open>content\<close> and \<open>type\<close>, which no built-in prototype
  defines: on anything but an object with that own property the read gives
  \<open>undefined\<close>, and on \<open>undefined\<close> or \<open>null\<close> it throws.
\<close>

fun get_field :: "jsval \<Rightarrow> jsstring \<Rightarrow> js_error + jsval" where
  "get_field JUndefined k = Inl (ReadOfNullish k)"
| "get_field JNull k = Inl (ReadOfNullish k)"
| "get_field (JObj kvs) k = (case map_of kvs k of Some v \<Rightarrow> Inr v | None \<Rightarrow> Inr JUndefined)"
| "get_field v k = Inr JUndefined"

text \<open>Optional chaining \<open>v?.name\<close>.\<close>

definition get_field_opt :: "jsval \<Rightarrow> jsstring \<Rightarrow> js_error + jsval" where
  "get_field_opt v k = (if v = JUndefined \<or> v = JNull then Inr JUndefined else get_field v k)"

subsection \<open>Strings: trim, slice, join, conversion to string\<close>

text \<open>
  \<open>String.prototype.trim\<close> strips the code units of WhiteSpace and LineTerminator
  from both ends.
\<close>

definition is_js_space :: "16 word \<Rightarrow> bool" where
  "is_js_space c =
     (c \<in> {0x0009, 0x000A, 0x000B, 0x000C, 0x000D, 0x0020, 0x00A0, 0x1680,
            0x2028, 0x2029, 0x202F, 0x205F, 0x3000, 0xFEFF}
      \<or> (0x2000 \<le> c \<and> c \<le> 0x200A))"

definition trim :: "jsstring \<Rightarrow> jsstring" where
  "trim s = rev (dropWhile is_js_space (rev (dropWhile is_js_space s)))"

fun join_strings :: "jsstring \<Rightarrow> jsstring list \<Rightarrow> jsstring" where
  "join_strings sep [] = []"
| "join_strings sep [s] = s"
| "join_strings sep (s # t # ts) = s @ sep @ join_strings sep (t # ts)"

text \<open>Evaluating a list of computations from left to right; the first throw ends it.\<close>

fun sequence_err :: "('e + 'a) list \<Rightarrow> 'e + 'a list" where
  "sequence_err [] = Inr []"
| "sequence_err (Inl e # rs) = Inl e"
| "sequence_err (Inr x # rs) = (case sequence_err rs of Inl e \<Rightarrow> Inl e | Inr xs \<Rightarrow> Inr (x # xs))"

text \<open>
  The conversion to string that \<open>join\<close> and \<open>JSON.parse\<close> apply to their arguments.
  An array is its elements joined by commas, \<open>undefined\<close> and \<open>null\<close> elements giving
  the empty string. A plain object is \<open>[object Object]\<close>, unless it has an own property
  \<open>toString\<close>: that cannot be a function here, and the inherited \<open>valueOf\<close> returns the
  object itself, so the conversion throws.
\<close>

fun to_string :: "jsval \<Rightarrow> js_error + jsstring" where
  "to_string JUndefined = Inr (u16 ''undefined'')"
| "to_string JNull = Inr (u16 ''null'')"
| "to_string (JBool b) = Inr (if b then u16 ''true'' else u16 ''false'')"
| "to_string (JNum n) = Inr n"
| "to_string (JStr s) = Inr s"
| "to_string (JArr xs) =
     (case sequence_err
             (map (\<lambda>x. if x = JUndefined \<or> x = JNull then Inr [] else to_string x) xs) of
        Inl e \<Rightarrow> Inl e
      | Inr ss \<Rightarrow> Inr (join_strings (u16 '','') ss))"
| "to_string (JObj kvs) =
     (if map_of kvs (u16 ''toString'') = None then Inr (u16 ''[object Object]'')
      else Inl NotPrimitive)"

text \<open>\<open>Array.prototype.join(sep)\<close>.\<close>

definition js_join :: "jsstring \<Rightarrow> jsval list \<Rightarrow> js_error + jsstring" where
  "js_join sep xs =
     (case sequence_err
             (map (\<lambda>x. if x = JUndefined \<or> x = JNull then Inr [] else to_string x) xs) of
        Inl e \<Rightarrow> Inl e
      | Inr ss \<Rightarrow> Inr (join_strings sep ss))"

text \<open>
  \<open>v.trim()\<close>: only a string has the method. On \<open>undefined\<close> and \<open>null\<close> the property
  read throws; on every other value the property is missing or is not a function, and
  the call throws.
\<close>

fun call_trim :: "jsval \<Rightarrow> js_error + jsstring" where
  "call_trim (JStr s) = Inr (trim s)"
| "call_trim JUndefined = Inl (ReadOfNullish (u16 ''trim''))"
| "call_trim JNull = Inl (ReadOfNullish (u16 ''trim''))"
| "call_trim v = Inl (NotAFunction (u16 ''trim''))"

text \<open>
  \<open>v?.slice(0, n)\<close>: strings and arrays have the method; \<open>undefined\<close> and \<open>null\<close>
  short-circuit to \<open>undefined\<close>; on anything else the call throws.
\<close>

fun call_slice_opt :: "jsval \<Rightarrow> nat \<Rightarrow> js_error + jsval" where
  "call_slice_opt (JStr s) n = Inr (JStr (take n s))"
| "call_slice_opt (JArr xs) n = Inr (JArr (take n xs))"
| "call_slice_opt JUndefined n = Inr JUndefined"
| "call_slice_opt JNull n = Inr JUndefined"
| "call_slice_opt v n = Inl (NotAFunction (u16 ''slice''))"

section \<open>Configuration, request, response and runtime\<close>

text \<open>
  The two secrets are read from the environment once: each is a string or is missing.
  \<open>!SECRET\<close> holds for a missing and for an empty one.
\<close>

record config =
  OPENAI_API_KEY :: "jsstring option"
  APP_KEY :: "jsstring option"

definition env_unset :: "jsstring option \<Rightarrow> bool" where
  "env_unset v = (v = None \<or> v = Some [])"

text \<open>
  A request as it reaches the route: the value of its \<open>X-APP-KEY\<close> header, if
  any, and the body the JSON middleware has parsed (\<open>undefined\<close> when there is none).
\<close>

record request =
  x_app_key :: "jsstring option"
  body :: jsval

text \<open>A response: the status set with \<open>res.status\<close> and the value given to \<open>res.json\<close>.\<close>

record response =
  status :: nat
  json_body :: jsval

record payload =
  model :: jsstring
  instructions :: jsstring
  input :: jsstring
  max_output_tokens :: nat

text \<open>The outbound call: the body is the payload, serialised by \<open>JSON.stringify\<close>.\<close>

record upstream_request =
  url :: jsstring
  http_method :: jsstring
  authorization :: jsstring
  content_type :: jsstring
  request_payload :: payload

text \<open>
  The upstream's reply, by what the handler asks of it: \<open>r.ok\<close>, and the outcomes of
  \<open>await r.text()\<close> and \<open>await r.json()\<close>, each of which may reject.
\<close>

record upstream_response =
  resp_ok :: bool
  resp_text :: "js_error + jsstring"
  resp_json :: "js_error + jsval"

text \<open>
  What the handler takes from its runtime and from the network: \<open>JSON.parse\<close> on a
  string, \<open>String(e)\<close> on a caught error, and \<open>fetch\<close>, whose promise may reject.
\<close>

record runtime =
  json_parse :: "jsstring \<Rightarrow> js_error + jsval"
  error_string :: "js_error \<Rightarrow> jsstring"
  fetch :: "upstream_request \<Rightarrow> js_error + upstream_response"

section \<open>The authentication middleware\<close>

definition unauthorized_body :: jsval where
  "unauthorized_body = JObj [(u16 ''error'', JStr (u16 ''Unauthorized''))]"

text \<open>\<open>requireAppKey\<close>: \<open>Some\<close> response when it answers itself, \<open>None\<close> when it calls \<open>next()\<close>.\<close>

definition requireAppKey :: "config \<Rightarrow> request \<Rightarrow> response option" where
  "requireAppKey cfg req =
     (if env_unset (APP_KEY cfg) \<or> x_app_key req \<noteq> APP_KEY cfg
      then Some \<lparr>status = 401, json_body = unauthorized_body\<rparr>
      else None)"

section \<open>The analyze handler\<close>

definition required_body :: jsval where
  "required_body = JObj [(u16 ''error'', JStr (u16 ''Le champ 'text' est requis.''))]"

definition too_long_body :: jsval where
  "too_long_body =
     JObj [(u16 ''error'',
            JStr (u16 ''Texte trop long (max ~12 000 caract'' @ [0xE8] @ u16 ''res pour le MVP).''))]"

definition misconfigured_body :: jsval where
  "misconfigured_body =
     JObj [(u16 ''error'', JStr (u16 ''Server misconfigured (missing OPENAI_API_KEY)''))]"

definition upstream_failed_body :: "jsstring \<Rightarrow> jsval" where
  "upstream_failed_body errText =
     JObj [(u16 ''error'', JStr (u16 ''OpenAI request failed'')), (u16 ''details'', JStr errText)]"

definition invalid_json_body :: "jsval \<Rightarrow> jsval" where
  "invalid_json_body shown =
     JObj [(u16 ''error'', JStr (u16 ''AI did not return valid JSON. Adjust prompt.'')),
           (u16 ''raw'', shown)]"

definition server_error_body :: "jsstring \<Rightarrow> jsval" where
  "server_error_body msg =
     JObj [(u16 ''error'', JStr (u16 ''Server error'')), (u16 ''details'', JStr msg)]"

text \<open>The template literal of the prompt, line by line, before \<open>.trim()\<close>.\<close>

definition instructions_literal :: jsstring where
  \<open>instructions_literal =
     concat (map (\<lambda>l. 0x0A # l)
       [u16 ''Tu es Clarifia, assistant administratif fran'' @ [0xE7] @ u16 ''ais.'',
        u16 ''Tu r'' @ [0xE9] @ u16 ''ponds UNIQUEMENT en JSON valide, sans markdown, sans texte autour.'',
        [],
        u16 ''Sch'' @ [0xE9] @ u16 ''ma JSON EXACT :'',
        u16 ''{'',
        u16 ''  "summary": "r'' @ [0xE9] @ u16 ''sum'' @ [0xE9] @ u16 '' en 2-4 lignes",'',
        u16 ''  "what_it_means": "ce que l'organisme attend (clair)",'',
        u16 ''  "deadlines": [{"label":"...", "date":"YYYY-MM-DD ou null", "notes":"..."}],'',
        u16 ''  "steps": [{"title":"...", "details":"..."}],'',
        u16 ''  "missing_info": ["..."],'',
        u16 ''  "risks": ["..."],'',
        u16 ''  "official_sites": [{"name":"...", "url":"..."}]'',
        u16 ''}'',
        [],
        u16 ''R'' @ [0xE8] @ u16 ''gles:'',
        u16 ''- Si date incertaine: date = null, explique dans notes.'',
        u16 ''- Fran'' @ [0xE7] @ u16 ''ais simple, actionnable.'',
        u16 ''- Ne pas inventer de liens: si doute, mettre service-public.fr.''])
     @ [0x0A]\<close>

definition build_payload :: "jsstring \<Rightarrow> payload" where
  "build_payload txt =
     \<lparr>model = u16 ''gpt-4o-mini'',
      instructions = trim instructions_literal,
      input = txt,
      max_output_tokens = 900\<rparr>"

definition build_request :: "jsstring \<Rightarrow> jsstring \<Rightarrow> upstream_request" where
  "build_request api_key txt =
     \<lparr>url = u16 ''https://api.openai.com/v1/responses'',
      http_method = u16 ''POST'',
      authorization = u16 ''Bearer '' @ api_key,
      content_type = u16 ''application/json'',
      request_payload = build_payload txt\<rparr>"

subsection \<open>Extracting the raw output\<close>

text \<open>The callback of \<open>flatMap\<close>, \<open>(o) => o.content || []\<close>, with the one level of
  flattening that \<open>flatMap\<close> applies to an array result.\<close>

definition content_of :: "jsval \<Rightarrow> js_error + jsval list" where
  "content_of item =
     (case get_field item (u16 ''content'') of
        Inl e \<Rightarrow> Inl e
      | Inr c \<Rightarrow> Inr (case js_or c (JArr []) of JArr bs \<Rightarrow> bs | v \<Rightarrow> [v]))"

definition flat_map_content :: "jsval list \<Rightarrow> js_error + jsval list" where
  "flat_map_content items =
     (case sequence_err (map content_of items) of
        Inl e \<Rightarrow> Inl e
      | Inr bss \<Rightarrow> Inr (concat bss))"

text \<open>The predicate of \<open>filter\<close>: \<open>c.type === "output_text" || c.type === "text"\<close>.\<close>

definition is_textual :: "jsval \<Rightarrow> js_error + bool" where
  "is_textual c =
     (case get_field c (u16 ''type'') of
        Inl e \<Rightarrow> Inl e
      | Inr t \<Rightarrow> Inr (t = JStr (u16 ''output_text'') \<or> t = JStr (u16 ''text'')))"

fun filter_textual :: "jsval list \<Rightarrow> js_error + jsval list" where
  "filter_textual [] = Inr []"
| "filter_textual (c # cs) =
     (case is_textual c of
        Inl e \<Rightarrow> Inl e
      | Inr keep \<Rightarrow>
          (case filter_textual cs of
             Inl e \<Rightarrow> Inl e
           | Inr ks \<Rightarrow> Inr (if keep then c # ks else ks)))"

text \<open>The callback of \<open>map\<close>: \<open>c.text || ""\<close>.\<close>

definition block_text :: "jsval \<Rightarrow> js_error + jsval" where
  "block_text c =
     (case get_field c (u16 ''text'') of
        Inl e \<Rightarrow> Inl e
      | Inr t \<Rightarrow> Inr (js_or t (JStr [])))"

definition output_list_text :: "jsval list \<Rightarrow> js_error + jsstring" where
  "output_list_text items =
     (case flat_map_content items of
        Inl e \<Rightarrow> Inl e
      | Inr blocks \<Rightarrow>
          (case filter_textual blocks of
             Inl e \<Rightarrow> Inl e
           | Inr kept \<Rightarrow>
               (case sequence_err (map block_text kept) of
                  Inl e \<Rightarrow> Inl e
                | Inr texts \<Rightarrow> js_join [0x0A] texts)))"

text \<open>
  \<open>raw = data.output_text || (Array.isArray(data.output) ? ... : "")\<close>.
  The result is whatever value \<open>output_text\<close> holds when that is truthy, a string
  otherwise.
\<close>

definition extract_raw :: "jsval \<Rightarrow> js_error + jsval" where
  "extract_raw data =
     (case get_field data (u16 ''output_text'') of
        Inl e \<Rightarrow> Inl e
      | Inr ot \<Rightarrow>
          if truthy ot then Inr ot
          else
            (case get_field data (u16 ''output'') of
               Inl e \<Rightarrow> Inl e
             | Inr (JArr items) \<Rightarrow>
                 (case output_list_text items of Inl e \<Rightarrow> Inl e | Inr s \<Rightarrow> Inr (JStr s))
             | Inr other \<Rightarrow> Inr (JStr [])))"

subsection \<open>Parsing the raw output and answering\<close>

text \<open>
  \<open>JSON.parse(raw)\<close> converts its argument to a string first. The inner
  \<open>try/catch\<close> catches whatever either step throws; what the \<open>catch\<close> block itself
  throws (\<open>raw?.slice\<close> on a value without that method) goes on to the outer one.
\<close>

definition js_JSON_parse :: "runtime \<Rightarrow> jsval \<Rightarrow> js_error + jsval" where
  "js_JSON_parse rt v = (case to_string v of Inl e \<Rightarrow> Inl e | Inr s \<Rightarrow> json_parse rt s)"

definition parse_and_respond :: "runtime \<Rightarrow> jsval \<Rightarrow> js_error + response" where
  "parse_and_respond rt raw =
     (case js_JSON_parse rt raw of
        Inl caught \<Rightarrow>
          (case call_slice_opt raw 2000 of
             Inl e \<Rightarrow> Inl e
           | Inr shown \<Rightarrow>
               Inr \<lparr>status = 500, json_body = invalid_json_body (js_or shown (JStr []))\<rparr>)
      | Inr parsed \<Rightarrow> Inr \<lparr>status = 200, json_body = parsed\<rparr>)"

definition on_response :: "runtime \<Rightarrow> upstream_response \<Rightarrow> js_error + response" where
  "on_response rt r =
     (if \<not> resp_ok r then
        (case resp_text r of
           Inl e \<Rightarrow> Inl e
         | Inr errText \<Rightarrow> Inr \<lparr>status = 502, json_body = upstream_failed_body errText\<rparr>)
      else
        (case resp_json r of
           Inl e \<Rightarrow> Inl e
         | Inr data \<Rightarrow>
             (case extract_raw data of
                Inl e \<Rightarrow> Inl e
              | Inr raw \<Rightarrow> parse_and_respond rt raw)))"

subsection \<open>The handler\<close>

text \<open>\<open>const text = (req.body?.text || "").trim()\<close>.\<close>

definition read_text :: "jsval \<Rightarrow> js_error + jsstring" where
  "read_text b =
     (case get_field_opt b (u16 ''text'') of
        Inl e \<Rightarrow> Inl e
      | Inr t \<Rightarrow> call_trim (js_or t (JStr [])))"

text \<open>
  The body of the \<open>try\<close> block: its outcome (a response, or the error it throws) and
  the upstream calls it has made, in order.
\<close>

definition analyze_try ::
  "runtime \<Rightarrow> config \<Rightarrow> request \<Rightarrow> (js_error + response) \<times> upstream_request list" where
  "analyze_try rt cfg req =
     (case read_text (body req) of
        Inl e \<Rightarrow> (Inl e, [])
      | Inr txt \<Rightarrow>
          if txt = [] then (Inr \<lparr>status = 400, json_body = required_body\<rparr>, [])
          else if length txt > 12000 then (Inr \<lparr>status = 400, json_body = too_long_body\<rparr>, [])
          else
            (case OPENAI_API_KEY cfg of
               None \<Rightarrow> (Inr \<lparr>status = 500, json_body = misconfigured_body\<rparr>, [])
             | Some api_key \<Rightarrow>
                 if api_key = [] then (Inr \<lparr>status = 500, json_body = misconfigured_body\<rparr>, [])
                 else
                   (let call = build_request api_key txt;
                        outcome = (case fetch rt call of
                                     Inl e \<Rightarrow> Inl e
                                   | Inr r \<Rightarrow> on_response rt r)
                    in (outcome, [call]))))"

text \<open>The whole handler: the outer \<open>catch\<close> turns a thrown error into a response.\<close>

definition analyze :: "runtime \<Rightarrow> config \<Rightarrow> request \<Rightarrow> response \<times> upstream_request list" where
  "analyze rt cfg req =
     (case analyze_try rt cfg req of
        (Inl e, calls) \<Rightarrow>
          (\<lparr>status = 500, json_body = server_error_body (error_string rt e)\<rparr>, calls)
      | (Inr res, calls) \<Rightarrow> (res, calls))"

text \<open>
  The route \<open>POST /analyze\<close>: \<open>requireAppKey\<close>, then the handler, for a request
  that has come through the middleware mounted in front of the route (next section).
\<close>

definition post_analyze :: "runtime \<Rightarrow> config \<Rightarrow> request \<Rightarrow> response \<times> upstream_request list" where
  "post_analyze rt cfg req =
     (case requireAppKey cfg req of
        Some res \<Rightarrow> (res, [])
      | None \<Rightarrow> analyze rt cfg req)"

section \<open>The middleware in front of the route\<close>

text \<open>
  \<open>app.use(cors())\<close>, \<open>app.use(express.json({ limit: "2mb" }))\<close> and
  \<open>app.use(rateLimit({ windowMs: 60 * 1000, max: 20, ... }))\<close> are mounted, in this
  order, before the route, so every inbound request goes through them first. For a
  \<open>POST\<close> the CORS middleware only adds headers. The body parser either sets
  \<open>req.body\<close> and calls \<open>next()\<close> or raises an error that the framework answers with
  the error's status; the rate limiter either calls \<open>next()\<close> or answers itself. Both are
  library code: what they decide for a request is taken as given.
\<close>

record inbound =
  header_x_app_key :: "jsstring option"
  raw_body :: "8 word list"

record front =
  express_json :: "inbound \<Rightarrow> nat + jsval"
    \<comment> \<open>the parsed body, or the status of the error the parser raises\<close>
  rateLimit :: "inbound \<Rightarrow> nat option"
    \<comment> \<open>the status the limiter answers with when it refuses the request\<close>

text \<open>
  What an inbound request gets: a refusal by the middleware, with its status (the body is
  the framework's), or the answer of the route with the upstream calls made for it.
\<close>

datatype served =
    Refused nat
  | Routed response "upstream_request list"

definition app_post_analyze :: "front \<Rightarrow> runtime \<Rightarrow> config \<Rightarrow> inbound \<Rightarrow> served" where
  "app_post_analyze fw rt cfg inb =
     (case express_json fw inb of
        Inl st \<Rightarrow> Refused st
      | Inr parsed_body \<Rightarrow>
          (case rateLimit fw inb of
             Some st \<Rightarrow> Refused st
           | None \<Rightarrow>
               (case post_analyze rt cfg
                       \<lparr>x_app_key = header_x_app_key inb, body = parsed_body\<rparr> of
                  (res, calls) \<Rightarrow> Routed res calls)))"


section \<open>The specification's reading of the output extraction\<close>

text \<open>
  The specification describes the upstream reply as a direct text field or a list of
  output items, each holding content blocks tagged with a kind. The definitions of this
  section follow those words; the extraction of the source is compared with them below.
\<close>

text \<open>The value of an own property, \<open>undefined\<close> when there is none.\<close>

definition own_field :: "jsval \<Rightarrow> jsstring \<Rightarrow> jsval" where
  "own_field v k =
     (case v of JObj kvs \<Rightarrow> (case map_of kvs k of Some x \<Rightarrow> x | None \<Rightarrow> JUndefined)
              | _ \<Rightarrow> JUndefined)"

text \<open>
  The content blocks of an output item, the kinds that mark a block as textual, and the
  text of a block (empty when it has none).
\<close>

definition spec_item_blocks :: "jsval \<Rightarrow> jsval list" where
  "spec_item_blocks item = (case own_field item (u16 ''content'') of JArr bs \<Rightarrow> bs | _ \<Rightarrow> [])"

definition spec_textual :: "jsval \<Rightarrow> bool" where
  "spec_textual b =
     (own_field b (u16 ''type'') = JStr (u16 ''output_text'')
      \<or> own_field b (u16 ''type'') = JStr (u16 ''text''))"

definition spec_block_text :: "jsval \<Rightarrow> jsstring" where
  "spec_block_text b = (case own_field b (u16 ''text'') of JStr s \<Rightarrow> s | _ \<Rightarrow> [])"

text \<open>
  The shape the specification takes for granted. No item and no block is \<open>null\<close>; the
  content of an item is missing (or falsy) or is a list of blocks; the text of a textual
  block is missing (or falsy) or is a string.
\<close>

definition nullish :: "jsval \<Rightarrow> bool" where
  "nullish v = (v = JUndefined \<or> v = JNull)"

definition well_formed_block :: "jsval \<Rightarrow> bool" where
  "well_formed_block b =
     (\<not> nullish b \<and>
      (if spec_textual b
       then (case own_field b (u16 ''text'') of JStr s \<Rightarrow> True | t \<Rightarrow> \<not> truthy t)
       else True))"

definition well_formed_item :: "jsval \<Rightarrow> bool" where
  "well_formed_item item =
     (\<not> nullish item \<and>
      (case own_field item (u16 ''content'') of
         JArr bs \<Rightarrow> list_all well_formed_block bs
       | c \<Rightarrow> \<not> truthy c))"

section \<open>Sample configuration, requests and runtime\<close>

text \<open>
  Concrete values for the instances below: a configuration with both secrets set, a
  request carrying the right key, an upstream reply in the shape of the Responses API,
  a runtime whose \<open>fetch\<close> returns a given outcome, whose parser accepts the text
  \<open>{}\<close> only, and whose \<open>String(e)\<close> prints a name and a message, and a front
  whose body parser accepts the body \<open>{}\<close> only, answering 400 to any other as
  \<open>express.json\<close> does to malformed JSON, and whose rate limiter lets every request
  through.
\<close>

definition sample_parse :: "jsstring \<Rightarrow> js_error + jsval" where
  "sample_parse s =
     (if s = u16 ''{}'' then Inr (JObj [])
      else Inl (Thrown (u16 ''SyntaxError'') (u16 ''Unexpected token'')))"

fun sample_error_string :: "js_error \<Rightarrow> jsstring" where
  "sample_error_string (ReadOfNullish k) = u16 ''TypeError: cannot read '' @ k"
| "sample_error_string (NotAFunction k) = u16 ''TypeError: '' @ k @ u16 '' is not a function''"
| "sample_error_string NotPrimitive = u16 ''TypeError: cannot convert object to primitive value''"
| "sample_error_string (Thrown n m) = n @ u16 '': '' @ m"

definition sample_runtime :: "js_error + upstream_response \<Rightarrow> runtime" where
  "sample_runtime reply =
     \<lparr>json_parse = sample_parse, error_string = sample_error_string, fetch = (\<lambda>call. reply)\<rparr>"

definition sample_config :: config where
  "sample_config = \<lparr>OPENAI_API_KEY = Some (u16 ''sk-test''), APP_KEY = Some (u16 ''secret'')\<rparr>"

definition sample_request :: "jsval \<Rightarrow> request" where
  "sample_request txt = \<lparr>x_app_key = Some (u16 ''secret''), body = JObj [(u16 ''text'', txt)]\<rparr>"

definition sample_reply :: "jsstring \<Rightarrow> upstream_response" where
  "sample_reply out =
     \<lparr>resp_ok = True,
      resp_text = Inr out,
      resp_json = Inr (JObj [(u16 ''output'',
                    JArr [JObj [(u16 ''content'',
                      JArr [JObj [(u16 ''type'', JStr (u16 ''output_text'')),
                                  (u16 ''text'', JStr out)]])]])])\<rparr>"

definition sample_front :: front where
  "sample_front =
     \<lparr>express_json = (\<lambda>inb. if raw_body inb = [0x7B, 0x7D] then Inr (JObj []) else Inl 400),
      rateLimit = (\<lambda>inb. None)\<rparr>"

section \<open>Auxiliary facts\<close>

lemmas sample_defs = sample_config_def sample_request_def sample_runtime_def sample_reply_def
  sample_parse_def

lemmas eval_defs = u16_def trim_def is_js_space_def read_text_def get_field_opt_def js_or_def
  extract_raw_def output_list_text_def flat_map_content_def content_of_def is_textual_def
  block_text_def js_join_def

lemma requireAppKey_pass:
  "APP_KEY cfg = Some k \<Longrightarrow> k \<noteq> [] \<Longrightarrow> x_app_key req = Some k \<Longrightarrow> requireAppKey cfg req = None"
  by (simp add: requireAppKey_def env_unset_def)

lemma requireAppKey_None:
  assumes "requireAppKey cfg req = None"
  shows "\<exists>k. APP_KEY cfg = Some k \<and> k \<noteq> [] \<and> x_app_key req = Some k"
proof -
  from assms have "\<not> env_unset (APP_KEY cfg)" "x_app_key req = APP_KEY cfg"
    by (simp_all add: requireAppKey_def split: if_splits)
  then show ?thesis
    by (cases "APP_KEY cfg") (simp_all add: env_unset_def)
qed

lemma post_analyze_unauthorized:
  assumes "x_app_key req = None \<or> x_app_key req \<noteq> APP_KEY cfg
             \<or> APP_KEY cfg = None \<or> APP_KEY cfg = Some []"
  shows "post_analyze rt cfg req =
           (\<lparr>status = 401, json_body = JObj [(u16 ''error'', JStr (u16 ''Unauthorized''))]\<rparr>, [])"
proof -
  have "env_unset (APP_KEY cfg) \<or> x_app_key req \<noteq> APP_KEY cfg"
    using assms by (auto simp: env_unset_def)
  then have "requireAppKey cfg req = Some \<lparr>status = 401, json_body = unauthorized_body\<rparr>"
    by (simp add: requireAppKey_def)
  then show ?thesis
    by (simp add: post_analyze_def unauthorized_body_def)
qed

lemma post_analyze_authorized:
  "APP_KEY cfg = Some k \<Longrightarrow> k \<noteq> [] \<Longrightarrow> x_app_key req = Some k \<Longrightarrow>
   post_analyze rt cfg req = analyze rt cfg req"
  by (simp add: post_analyze_def requireAppKey_pass)

lemma analyze_calls_upstream:
  assumes "read_text (body req) = Inr txt" "txt \<noteq> []" "length txt \<le> 12000"
      and "OPENAI_API_KEY cfg = Some ak" "ak \<noteq> []"
  shows "analyze_try rt cfg req =
           (case fetch rt (build_request ak txt) of Inl e \<Rightarrow> Inl e | Inr r \<Rightarrow> on_response rt r,
            [build_request ak txt])"
  using assms by (simp add: analyze_try_def Let_def)

lemma read_text_string:
  "body req = JObj kvs \<Longrightarrow> map_of kvs (u16 ''text'') = Some (JStr s) \<Longrightarrow>
   read_text (body req) = Inr (trim s)"
  by (simp add: read_text_def get_field_opt_def js_or_def)

lemma call_trim_non_string:
  "truthy t \<Longrightarrow> \<forall>s. t \<noteq> JStr s \<Longrightarrow> call_trim t = Inl (NotAFunction (u16 ''trim''))"
  by (cases t) simp_all

lemma on_response_shapes:
  assumes "on_response rt r = Inr res"
  shows "status res = 200
       \<or> (\<exists>t. res = \<lparr>status = 502, json_body = upstream_failed_body t\<rparr>)
       \<or> (\<exists>v. res = \<lparr>status = 500, json_body = invalid_json_body v\<rparr>)"
  using assms
  by (auto simp: on_response_def parse_and_respond_def split: if_splits sum.splits)

lemma analyze_try_shapes:
  assumes "analyze_try rt cfg req = (Inr res, calls)"
  shows "res = \<lparr>status = 400, json_body = required_body\<rparr>
       \<or> res = \<lparr>status = 400, json_body = too_long_body\<rparr>
       \<or> res = \<lparr>status = 500, json_body = misconfigured_body\<rparr>
       \<or> status res = 200
       \<or> (\<exists>t. res = \<lparr>status = 502, json_body = upstream_failed_body t\<rparr>)
       \<or> (\<exists>v. res = \<lparr>status = 500, json_body = invalid_json_body v\<rparr>)"
proof (cases "read_text (body req)")
  case (Inl e)
  with assms show ?thesis by (simp add: analyze_try_def)
next
  case (Inr tx)
  show ?thesis
  proof (cases "tx = [] \<or> length tx > 12000 \<or> OPENAI_API_KEY cfg = None \<or> OPENAI_API_KEY cfg = Some []")
    case True
    with assms Inr show ?thesis
      by (auto simp: analyze_try_def split: if_splits option.splits)
  next
    case False
    then obtain ak where k: "OPENAI_API_KEY cfg = Some ak" "ak \<noteq> []" by auto
    from False have t: "tx \<noteq> []" "length tx \<le> 12000" by auto
    from analyze_calls_upstream[OF Inr t k, of rt] assms
    obtain r where "on_response rt r = Inr res"
      by (auto split: sum.splits)
    from on_response_shapes[OF this] show ?thesis by blast
  qed
qed

lemma get_field_own: "\<not> nullish v \<Longrightarrow> get_field v k = Inr (own_field v k)"
  by (cases v) (simp_all add: nullish_def own_field_def split: option.splits)

lemma sequence_err_map_Inr:
  "(\<And>x. x \<in> set xs \<Longrightarrow> f x = Inr (g x)) \<Longrightarrow> sequence_err (map f xs) = Inr (map g xs)"
  by (induction xs) simp_all

lemma content_of_well_formed:
  assumes "well_formed_item item"
  shows "content_of item = Inr (spec_item_blocks item)"
proof -
  from assms have n: "\<not> nullish item" by (simp add: well_formed_item_def)
  from assms show ?thesis
    by (cases "own_field item (u16 ''content'')")
       (simp_all add: content_of_def get_field_own[OF n] spec_item_blocks_def js_or_def
          well_formed_item_def)
qed

lemma flat_map_content_well_formed:
  assumes "list_all well_formed_item items"
  shows "flat_map_content items = Inr (concat (map spec_item_blocks items))"
proof -
  have "sequence_err (map content_of items) = Inr (map spec_item_blocks items)"
    using assms by (intro sequence_err_map_Inr content_of_well_formed) (simp add: list_all_iff)
  then show ?thesis by (simp add: flat_map_content_def)
qed

lemma blocks_well_formed:
  assumes "well_formed_item item"
  shows "list_all well_formed_block (spec_item_blocks item)"
  using assms
  by (cases "own_field item (u16 ''content'')") (simp_all add: well_formed_item_def spec_item_blocks_def)

lemma all_blocks_well_formed:
  "list_all well_formed_item items \<Longrightarrow>
   list_all well_formed_block (concat (map spec_item_blocks items))"
  by (induction items) (simp_all add: blocks_well_formed)

lemma is_textual_well_formed:
  "well_formed_block b \<Longrightarrow> is_textual b = Inr (spec_textual b)"
  by (simp add: well_formed_block_def is_textual_def get_field_own spec_textual_def)

lemma filter_textual_well_formed:
  "list_all well_formed_block bs \<Longrightarrow> filter_textual bs = Inr (filter spec_textual bs)"
  by (induction bs) (simp_all add: is_textual_well_formed)

lemma block_text_well_formed:
  assumes "well_formed_block b" "spec_textual b"
  shows "block_text b = Inr (JStr (spec_block_text b))"
proof -
  from assms have n: "\<not> nullish b" by (simp add: well_formed_block_def)
  from assms show ?thesis
    by (cases "own_field b (u16 ''text'')")
       (simp_all add: block_text_def get_field_own[OF n] well_formed_block_def
          spec_block_text_def js_or_def)
qed

lemma js_join_strings: "js_join sep (map JStr ss) = Inr (join_strings sep ss)"
proof -
  have "sequence_err (map (\<lambda>x. if x = JUndefined \<or> x = JNull then Inr [] else to_string x) (map JStr ss))
        = Inr ss"
    by (induction ss) simp_all
  then show ?thesis by (simp add: js_join_def)
qed

lemma output_list_text_well_formed:
  assumes "list_all well_formed_item items"
  shows "output_list_text items =
           Inr (join_strings [0x0A]
                  (map spec_block_text (filter spec_textual (concat (map spec_item_blocks items)))))"
proof -
  let ?blocks = "concat (map spec_item_blocks items)"
  let ?kept = "filter spec_textual ?blocks"
  have wf: "list_all well_formed_block ?blocks"
    using assms by (rule all_blocks_well_formed)
  have "sequence_err (map block_text ?kept) = Inr (map (\<lambda>b. JStr (spec_block_text b)) ?kept)"
  proof (rule sequence_err_map_Inr)
    fix b assume "b \<in> set ?kept"
    then have "b \<in> set ?blocks" "spec_textual b" by simp_all
    with wf have "well_formed_block b" "spec_textual b"
      unfolding list_all_iff by blast+
    then show "block_text b = Inr (JStr (spec_block_text b))"
      by (rule block_text_well_formed)
  qed
  then have "sequence_err (map block_text ?kept) = Inr (map JStr (map spec_block_text ?kept))"
    by simp
  then show ?thesis
    unfolding output_list_text_def
    using js_join_strings[of "[0x0A]" "map spec_block_text ?kept"]
    by (simp add: flat_map_content_well_formed[OF assms] filter_textual_well_formed[OF wf])
qed

lemma dropWhile_replicate_append:
  "P c \<Longrightarrow> dropWhile P (replicate n c @ ys) = dropWhile P ys"
  by (induction n) simp_all

lemma trim_padded:
  assumes "s \<noteq> []" "\<not> is_js_space (hd s)" "\<not> is_js_space (last s)" "is_js_space c"
  shows "trim (replicate m c @ s @ replicate n c) = s"
proof -
  have "dropWhile is_js_space (replicate m c @ s @ replicate n c)
          = dropWhile is_js_space (s @ replicate n c)"
    using assms(4) by (rule dropWhile_replicate_append)
  also have "\<dots> = s @ replicate n c"
    using assms(1,2) by (cases s) simp_all
  finally have front: "dropWhile is_js_space (replicate m c @ s @ replicate n c) = s @ replicate n c" .
  have "dropWhile is_js_space (rev (s @ replicate n c))
          = dropWhile is_js_space (rev s)"
    using assms(4) by (simp add: dropWhile_replicate_append)
  also have "\<dots> = rev s"
    using assms(1,3) by (cases "rev s") (simp_all add: last_rev [symmetric] hd_rev)
  finally show ?thesis
    by (simp add: trim_def front)
qed

lemma status_past_checks:
  assumes "read_text (body req) = Inr tx" "tx \<noteq> []" "length tx \<le> 12000"
  shows "status (fst (analyze rt cfg req)) \<in> {200, 500, 502}"
proof (cases "OPENAI_API_KEY cfg = None \<or> OPENAI_API_KEY cfg = Some []")
  case True
  with assms show ?thesis
    by (auto simp: analyze_def analyze_try_def)
next
  case False
  then obtain ak where k: "OPENAI_API_KEY cfg = Some ak" "ak \<noteq> []" by auto
  note up = analyze_calls_upstream[OF assms k, of rt]
  show ?thesis
  proof (cases "fst (analyze_try rt cfg req)")
    case (Inl e)
    then show ?thesis
      by (cases "analyze_try rt cfg req") (simp add: analyze_def)
  next
    case (Inr res)
    with up obtain r where "on_response rt r = Inr res"
      by (auto split: sum.splits)
    from on_response_shapes[OF this] Inr show ?thesis
      by (cases "analyze_try rt cfg req") (auto simp: analyze_def)
  qed
qed

lemma trim_empty: "trim [] = []"
  by (simp add: trim_def)

lemma call_trim_Inr:
  "call_trim v = Inr tx \<Longrightarrow> \<exists>s. v = JStr s \<and> tx = trim s"
  by (cases v) auto

lemma read_text_Inr_shape:
  assumes "read_text b = Inr tx" "tx \<noteq> []"
  shows "\<exists>kvs s. b = JObj kvs \<and> map_of kvs (u16 ''text'') = Some (JStr s) \<and> tx = trim s"
proof -
  obtain t where t: "get_field_opt b (u16 ''text'') = Inr t" "call_trim (js_or t (JStr [])) = Inr tx"
    using assms(1) by (auto simp: read_text_def split: sum.splits)
  have tr: "truthy t"
  proof (rule ccontr)
    assume "\<not> truthy t"
    with t(2) have "tx = []" by (simp add: js_or_def trim_empty)
    with assms(2) show False by simp
  qed
  with t(2) obtain s where s: "t = JStr s" "tx = trim s"
    using call_trim_Inr by (auto simp: js_or_def)
  from t(1) tr s(1) obtain kvs where "b = JObj kvs" "map_of kvs (u16 ''text'') = Some (JStr s)"
    by (cases b) (auto simp: get_field_opt_def split: option.splits)
  with s(2) show ?thesis by blast
qed

lemma on_response_200:
  assumes "on_response rt r = Inr res" "status res = 200"
  shows "resp_ok r \<and>
         (\<exists>data raw raw_text.
            resp_json r = Inr data \<and> extract_raw data = Inr raw \<and>
            to_string raw = Inr raw_text \<and> json_parse rt raw_text = Inr (json_body res))"
  using assms
  by (auto simp: on_response_def parse_and_respond_def js_JSON_parse_def
           split: if_splits sum.splits)

lemma analyze_try_200:
  assumes "analyze_try rt cfg req = (Inr res, calls)" "status res = 200"
  shows "\<exists>tx ak r data raw raw_text.
           read_text (body req) = Inr tx \<and> tx \<noteq> [] \<and> length tx \<le> 12000 \<and>
           OPENAI_API_KEY cfg = Some ak \<and> ak \<noteq> [] \<and>
           fetch rt (build_request ak tx) = Inr r \<and> resp_ok r \<and>
           resp_json r = Inr data \<and> extract_raw data = Inr raw \<and>
           to_string raw = Inr raw_text \<and> json_parse rt raw_text = Inr (json_body res)"
proof -
  from assms obtain tx where tx: "read_text (body req) = Inr tx"
    by (cases "read_text (body req)") (auto simp: analyze_try_def)
  from assms tx have chk: "tx \<noteq> []" "length tx \<le> 12000"
    by (auto simp: analyze_try_def split: if_splits)
  from assms tx chk obtain ak where ak: "OPENAI_API_KEY cfg = Some ak" "ak \<noteq> []"
    by (cases "OPENAI_API_KEY cfg") (auto simp: analyze_try_def split: if_splits)
  from analyze_calls_upstream[OF tx chk ak, of rt] assms(1)
  obtain r where r: "fetch rt (build_request ak tx) = Inr r" "on_response rt r = Inr res"
    by (auto split: sum.splits)
  from on_response_200[OF r(2) assms(2)] tx chk ak r(1) show ?thesis
    by blast
qed

lemma post_analyze_shapes:
  "(status (fst (post_analyze rt cfg req)) \<in> {200, 400, 401, 500, 502})
   \<and> (status (fst (post_analyze rt cfg req)) \<noteq> 200 \<longrightarrow>
        (\<exists>msg rest. json_body (fst (post_analyze rt cfg req)) = JObj ((u16 ''error'', JStr msg) # rest)))
   \<and> (status (fst (post_analyze rt cfg req)) = 400 \<or> status (fst (post_analyze rt cfg req)) = 401 \<longrightarrow>
        (\<exists>msg. json_body (fst (post_analyze rt cfg req)) = JObj [(u16 ''error'', JStr msg)]))
   \<and> (\<forall>e calls. requireAppKey cfg req = None \<and> analyze_try rt cfg req = (Inl e, calls) \<longrightarrow>
        post_analyze rt cfg req =
          (\<lparr>status = 500,
            json_body = JObj [(u16 ''error'', JStr (u16 ''Server error'')),
                              (u16 ''details'', JStr (error_string rt e))]\<rparr>, calls))"
proof (cases "requireAppKey cfg req")
  case (Some res)
  then have "res = \<lparr>status = 401, json_body = unauthorized_body\<rparr>"
    by (simp add: requireAppKey_def split: if_splits)
  with Some show ?thesis
    by (simp add: post_analyze_def unauthorized_body_def)
next
  case None
  then have pa: "post_analyze rt cfg req = analyze rt cfg req"
    by (simp add: post_analyze_def)
  obtain out calls where at: "analyze_try rt cfg req = (out, calls)"
    by (cases "analyze_try rt cfg req")
  show ?thesis
  proof (cases out)
    case (Inl e)
    with at pa show ?thesis
      by (simp add: analyze_def server_error_body_def)
  next
    case (Inr res)
    with at pa have r: "fst (post_analyze rt cfg req) = res"
      by (simp add: analyze_def)
    from analyze_try_shapes[of rt cfg req res calls] at Inr
    have "res = \<lparr>status = 400, json_body = required_body\<rparr>
       \<or> res = \<lparr>status = 400, json_body = too_long_body\<rparr>
       \<or> res = \<lparr>status = 500, json_body = misconfigured_body\<rparr>
       \<or> status res = 200
       \<or> (\<exists>t. res = \<lparr>status = 502, json_body = upstream_failed_body t\<rparr>)
       \<or> (\<exists>v. res = \<lparr>status = 500, json_body = invalid_json_body v\<rparr>)"
      by simp
    then show ?thesis
      unfolding r using at Inr
      by (auto simp: required_body_def too_long_body_def misconfigured_body_def
            upstream_failed_body_def invalid_json_body_def)
  qed
qed

lemma ok_only_when_nothing_failed:
  assumes "status (fst (post_analyze rt cfg req)) = 200"
  shows "\<exists>k kvs s ak r data raw raw_text.
           APP_KEY cfg = Some k \<and> k \<noteq> [] \<and> x_app_key req = Some k \<and>
           body req = JObj kvs \<and> map_of kvs (u16 ''text'') = Some (JStr s) \<and>
           trim s \<noteq> [] \<and> length (trim s) \<le> 12000 \<and>
           OPENAI_API_KEY cfg = Some ak \<and> ak \<noteq> [] \<and>
           fetch rt (build_request ak (trim s)) = Inr r \<and> resp_ok r \<and>
           resp_json r = Inr data \<and> extract_raw data = Inr raw \<and>
           to_string raw = Inr raw_text \<and>
           json_parse rt raw_text = Inr (json_body (fst (post_analyze rt cfg req)))"
proof -
  have auth: "requireAppKey cfg req = None"
  proof (cases "requireAppKey cfg req")
    case (Some res)
    then have "res = \<lparr>status = 401, json_body = unauthorized_body\<rparr>"
      by (simp add: requireAppKey_def split: if_splits)
    with Some assms show ?thesis by (simp add: post_analyze_def)
  qed simp
  then have pa: "post_analyze rt cfg req = analyze rt cfg req"
    by (simp add: post_analyze_def)
  obtain out calls where at: "analyze_try rt cfg req = (out, calls)"
    by (cases "analyze_try rt cfg req")
  from assms pa at obtain res where res: "out = Inr res" "fst (post_analyze rt cfg req) = res"
    by (cases out) (auto simp: analyze_def)
  from analyze_try_200[of rt cfg req res calls] at res assms
  obtain tx ak r data raw raw_text where chain:
    "read_text (body req) = Inr tx" "tx \<noteq> []" "length tx \<le> 12000"
    "OPENAI_API_KEY cfg = Some ak" "ak \<noteq> []"
    "fetch rt (build_request ak tx) = Inr r" "resp_ok r"
    "resp_json r = Inr data" "extract_raw data = Inr raw"
    "to_string raw = Inr raw_text" "json_parse rt raw_text = Inr (json_body res)"
    by auto
  from read_text_Inr_shape[OF chain(1,2)]
  obtain kvs s where shape: "body req = JObj kvs" "map_of kvs (u16 ''text'') = Some (JStr s)"
    "tx = trim s" by blast
  from requireAppKey_None[OF auth]
  obtain k where k: "APP_KEY cfg = Some k" "k \<noteq> []" "x_app_key req = Some k" by blast
  from k shape chain res(2) show ?thesis
    by (intro exI[of _ k] exI[of _ kvs] exI[of _ s] exI[of _ ak] exI[of _ r] exI[of _ data]
          exI[of _ raw] exI[of _ raw_text]) simp
qed

section \<open>The claims\<close>

text \<open>
  C1 (as amended). For an upstream reply that is not \<open>null\<close>: when the direct
  \<open>output_text\<close> field holds a truthy value (for a string, a non-empty one), the raw
  output is that value. Otherwise, when \<open>output\<close> is a list of well-formed items, the
  raw output is the texts of the blocks of type \<open>output_text\<close> or \<open>text\<close>, taken over
  all items in order and joined by newlines. Otherwise, when \<open>output\<close> is not a list,
  the raw output is the empty string.
\<close>

theorem raw_output_extraction:
  assumes "data \<noteq> JUndefined" "data \<noteq> JNull"
  shows "(truthy (own_field data (u16 ''output_text'')) \<longrightarrow>
            extract_raw data = Inr (own_field data (u16 ''output_text'')))
       \<and> (\<not> truthy (own_field data (u16 ''output_text''))
            \<and> own_field data (u16 ''output'') = JArr items
            \<and> list_all well_formed_item items \<longrightarrow>
            extract_raw data =
              Inr (JStr (join_strings [0x0A]
                     (map spec_block_text
                        (filter spec_textual (concat (map spec_item_blocks items)))))))
       \<and> (\<not> truthy (own_field data (u16 ''output_text''))
            \<and> (\<forall>xs. own_field data (u16 ''output'') \<noteq> JArr xs) \<longrightarrow>
            extract_raw data = Inr (JStr []))"
proof -
  from assms have n: "\<not> nullish data" by (simp add: nullish_def)
  show ?thesis
    by (cases "own_field data (u16 ''output'')")
       (simp_all add: extract_raw_def get_field_own[OF n] output_list_text_well_formed)
qed

text \<open>Instances of C1: a direct text, a list of items, and neither.\<close>

theorem raw_output_extraction_witness:
  "extract_raw (JObj [(u16 ''output_text'', JStr (u16 ''direct''))]) = Inr (JStr (u16 ''direct''))
   \<and> extract_raw (JObj [(u16 ''output'',
         JArr [JObj [(u16 ''content'',
                 JArr [JObj [(u16 ''type'', JStr (u16 ''text'')), (u16 ''text'', JStr (u16 ''a''))],
                       JObj [(u16 ''type'', JStr (u16 ''refusal'')), (u16 ''text'', JStr (u16 ''b''))]])],
               JObj [(u16 ''type'', JStr (u16 ''reasoning''))],
               JObj [(u16 ''content'',
                 JArr [JObj [(u16 ''type'', JStr (u16 ''output_text'')), (u16 ''text'', JStr (u16 ''c''))]])]])])
       = Inr (JStr (u16 ''a'' @ [0x0A] @ u16 ''c''))
   \<and> extract_raw (JObj [(u16 ''id'', JStr (u16 ''resp_1''))]) = Inr (JStr [])"
  using raw_output_extraction [of "JObj [(u16 ''output_text'', JStr (u16 ''direct''))]" "[]"]
        raw_output_extraction [of "JObj [(u16 ''output'',
         JArr [JObj [(u16 ''content'',
                 JArr [JObj [(u16 ''type'', JStr (u16 ''text'')), (u16 ''text'', JStr (u16 ''a''))],
                       JObj [(u16 ''type'', JStr (u16 ''refusal'')), (u16 ''text'', JStr (u16 ''b''))]])],
               JObj [(u16 ''type'', JStr (u16 ''reasoning''))],
               JObj [(u16 ''content'',
                 JArr [JObj [(u16 ''type'', JStr (u16 ''output_text'')), (u16 ''text'', JStr (u16 ''c''))]])]])]"
          "[JObj [(u16 ''content'',
                 JArr [JObj [(u16 ''type'', JStr (u16 ''text'')), (u16 ''text'', JStr (u16 ''a''))],
                       JObj [(u16 ''type'', JStr (u16 ''refusal'')), (u16 ''text'', JStr (u16 ''b''))]])],
               JObj [(u16 ''type'', JStr (u16 ''reasoning''))],
               JObj [(u16 ''content'',
                 JArr [JObj [(u16 ''type'', JStr (u16 ''output_text'')), (u16 ''text'', JStr (u16 ''c''))]])]]"]
        raw_output_extraction [of "JObj [(u16 ''id'', JStr (u16 ''resp_1''))]" "[]"]
  by (simp add: own_field_def u16_def well_formed_item_def well_formed_block_def nullish_def
        spec_textual_def spec_item_blocks_def spec_block_text_def)

text \<open>
  C1 as stated fails: a reply that provides an empty \<open>output_text\<close> next to an output
  list does not give the empty string; the list is scanned.
\<close>

theorem output_text_field_counterexample:
  "get_field (JObj [(u16 ''output_text'', JStr []),
                    (u16 ''output'',
                       JArr [JObj [(u16 ''content'',
                         JArr [JObj [(u16 ''type'', JStr (u16 ''output_text'')),
                                     (u16 ''text'', JStr (u16 ''hi''))]])]])])
       (u16 ''output_text'') = Inr (JStr [])
   \<and> extract_raw (JObj [(u16 ''output_text'', JStr []),
                    (u16 ''output'',
                       JArr [JObj [(u16 ''content'',
                         JArr [JObj [(u16 ''type'', JStr (u16 ''output_text'')),
                                     (u16 ''text'', JStr (u16 ''hi''))]])]])])
       = Inr (JStr (u16 ''hi''))"
  by (simp add: eval_defs)

text \<open>
  C2 (as amended). With the right key and a string as \<open>text\<close>: when the trimmed text
  has 12001 code units or more, the response is 400 with the message that names the
  12 000 limit, and no upstream call is made; when the trimmed text has exactly 12000,
  the length check passes and the response is not a 400.
\<close>

theorem trimmed_length_check:
  assumes "APP_KEY cfg = Some k" "k \<noteq> []" "x_app_key req = Some k"
      and "body req = JObj kvs" "map_of kvs (u16 ''text'') = Some (JStr s)"
  shows "(12001 \<le> length (trim s) \<longrightarrow>
            post_analyze rt cfg req =
              (\<lparr>status = 400,
                json_body = JObj [(u16 ''error'',
                  JStr (u16 ''Texte trop long (max ~12 000 caract'' @ [0xE8] @ u16 ''res pour le MVP).''))]\<rparr>,
               []))
       \<and> (length (trim s) = 12000 \<longrightarrow> status (fst (post_analyze rt cfg req)) \<noteq> 400)"
proof -
  have rt: "read_text (body req) = Inr (trim s)"
    using assms(4,5) by (rule read_text_string)
  have pa: "post_analyze rt cfg req = analyze rt cfg req"
    using assms(1-3) by (rule post_analyze_authorized)
  have "12001 \<le> length (trim s) \<Longrightarrow>
        analyze_try rt cfg req = (Inr \<lparr>status = 400, json_body = too_long_body\<rparr>, [])"
    using rt by (auto simp: analyze_try_def)
  moreover have "status (fst (analyze rt cfg req)) \<noteq> 400" if "length (trim s) = 12000"
  proof -
    from that have "trim s \<noteq> []" "length (trim s) \<le> 12000" by auto
    from status_past_checks[OF rt this, of rt cfg] show ?thesis by auto
  qed
  ultimately show ?thesis
    by (simp add: pa analyze_def too_long_body_def)
qed

text \<open>Instances of C2: trimmed texts of 12001 and of 12000 code units.\<close>

theorem trimmed_length_check_witness:
  "length (trim (replicate 12001 (0x61 :: 16 word))) = 12001
   \<and> post_analyze (sample_runtime (Inl NotPrimitive)) sample_config
        (sample_request (JStr (replicate 12001 0x61)))
     = (\<lparr>status = 400,
         json_body = JObj [(u16 ''error'',
           JStr (u16 ''Texte trop long (max ~12 000 caract'' @ [0xE8] @ u16 ''res pour le MVP).''))]\<rparr>,
        [])
   \<and> length (trim (replicate 12000 (0x61 :: 16 word))) = 12000
   \<and> status (fst (post_analyze (sample_runtime (Inl NotPrimitive)) sample_config
        (sample_request (JStr (replicate 12000 0x61))))) \<noteq> 400"
proof -
  have t1: "trim (replicate 12001 (0x61 :: 16 word)) = replicate 12001 0x61"
    using trim_padded[of "replicate 12001 (0x61 :: 16 word)" "0x20" 0 0]
    by (simp add: is_js_space_def)
  have t2: "trim (replicate 12000 (0x61 :: 16 word)) = replicate 12000 0x61"
    using trim_padded[of "replicate 12000 (0x61 :: 16 word)" "0x20" 0 0]
    by (simp add: is_js_space_def)
  note w1 = trimmed_length_check [of sample_config "u16 ''secret''"
              "sample_request (JStr (replicate 12001 0x61))"
              "[(u16 ''text'', JStr (replicate 12001 0x61))]" "replicate 12001 0x61"
              "sample_runtime (Inl NotPrimitive)"]
  note w2 = trimmed_length_check [of sample_config "u16 ''secret''"
              "sample_request (JStr (replicate 12000 0x61))"
              "[(u16 ''text'', JStr (replicate 12000 0x61))]" "replicate 12000 0x61"
              "sample_runtime (Inl NotPrimitive)"]
  from w1 w2 show ?thesis
    by (simp add: t1 t2 sample_config_def sample_request_def u16_def)
qed

text \<open>
  C2 as stated fails: a text of 12001 code units, one letter followed by 12000 spaces,
  is not refused; its trimmed form is forwarded and the response is 200.
\<close>

theorem untrimmed_length_counterexample:
  "length (u16 ''a'' @ replicate 12000 (0x20 :: 16 word)) = 12001
   \<and> post_analyze (sample_runtime (Inr (sample_reply (u16 ''{}'')))) sample_config
        (sample_request (JStr (u16 ''a'' @ replicate 12000 0x20)))
     = (\<lparr>status = 200, json_body = JObj []\<rparr>, [build_request (u16 ''sk-test'') (u16 ''a'')])"
proof -
  let ?s = "u16 ''a'' @ replicate 12000 (0x20 :: 16 word)"
  let ?rt = "sample_runtime (Inr (sample_reply (u16 ''{}'')))"
  let ?req = "sample_request (JStr ?s)"
  have len: "length ?s = 12001"
    by (simp add: u16_def)
  have t: "trim ?s = u16 ''a''"
    using trim_padded[of "u16 ''a''" "0x20" 0 12000] by (simp add: u16_def is_js_space_def)
  have "read_text (body ?req) = Inr (trim ?s)"
    by (rule read_text_string[of _ "[(u16 ''text'', JStr ?s)]"]) (simp_all add: sample_request_def)
  then have rd: "read_text (body ?req) = Inr (u16 ''a'')"
    by (simp only: t)
  have ne: "u16 ''a'' \<noteq> []" "length (u16 ''a'') \<le> 12000"
    by (simp_all add: u16_def)
  have key: "OPENAI_API_KEY sample_config = Some (u16 ''sk-test'')" "u16 ''sk-test'' \<noteq> []"
    by (simp_all add: sample_config_def u16_def)
  have resp: "on_response ?rt (sample_reply (u16 ''{}'')) = Inr \<lparr>status = 200, json_body = JObj []\<rparr>"
    by (simp add: on_response_def parse_and_respond_def js_JSON_parse_def sample_defs eval_defs)
  have "analyze_try ?rt sample_config ?req =
          (Inr \<lparr>status = 200, json_body = JObj []\<rparr>, [build_request (u16 ''sk-test'') (u16 ''a'')])"
    using analyze_calls_upstream[OF rd ne key, of ?rt] resp
    by (simp add: sample_runtime_def)
  moreover have "post_analyze ?rt sample_config ?req = analyze ?rt sample_config ?req"
    by (rule post_analyze_authorized[of _ "u16 ''secret''"])
       (simp_all add: sample_config_def sample_request_def u16_def)
  ultimately show ?thesis
    using len by (simp add: analyze_def)
qed

text \<open>
  C3. When the upstream call succeeds and the extracted raw text does not parse, the
  \<open>try\<close> block does not throw: it answers 500 with the fixed message and, as \<open>raw\<close>,
  the first 2000 code units of the raw text (all of it when it is shorter).
\<close>

theorem invalid_json_is_500:
  assumes auth: "APP_KEY cfg = Some k" "k \<noteq> []" "x_app_key req = Some k"
      and text_ok: "body req = JObj kvs" "map_of kvs (u16 ''text'') = Some (JStr s)"
                   "trim s \<noteq> []" "length (trim s) \<le> 12000"
      and key: "OPENAI_API_KEY cfg = Some ak" "ak \<noteq> []"
      and reply: "fetch rt (build_request ak (trim s)) = Inr r" "resp_ok r"
                 "resp_json r = Inr data"
      and extracted: "extract_raw data = Inr (JStr raw)" "json_parse rt raw = Inl e"
  shows "analyze_try rt cfg req =
           (Inr \<lparr>status = 500,
                 json_body = JObj [(u16 ''error'', JStr (u16 ''AI did not return valid JSON. Adjust prompt.'')),
                                   (u16 ''raw'', JStr (take 2000 raw))]\<rparr>,
            [build_request ak (trim s)])
       \<and> post_analyze rt cfg req =
           (\<lparr>status = 500,
             json_body = JObj [(u16 ''error'', JStr (u16 ''AI did not return valid JSON. Adjust prompt.'')),
                               (u16 ''raw'', JStr (take 2000 raw))]\<rparr>,
            [build_request ak (trim s)])"
proof -
  have rd: "read_text (body req) = Inr (trim s)"
    using text_ok(1,2) by (rule read_text_string)
  have "js_or (JStr (take 2000 raw)) (JStr []) = JStr (take 2000 raw)"
    by (simp add: js_or_def)
  then have "parse_and_respond rt (JStr raw) =
      Inr \<lparr>status = 500, json_body = invalid_json_body (JStr (take 2000 raw))\<rparr>"
    using extracted(2) by (simp add: parse_and_respond_def js_JSON_parse_def)
  then have "on_response rt r =
      Inr \<lparr>status = 500, json_body = invalid_json_body (JStr (take 2000 raw))\<rparr>"
    using reply(2,3) extracted(1) by (simp add: on_response_def)
  then have "analyze_try rt cfg req =
      (Inr \<lparr>status = 500, json_body = invalid_json_body (JStr (take 2000 raw))\<rparr>,
       [build_request ak (trim s)])"
    using analyze_calls_upstream[OF rd text_ok(3,4) key, of rt] reply(1) by simp
  then show ?thesis
    using auth by (simp add: post_analyze_authorized analyze_def invalid_json_body_def)
qed

text \<open>Instance of C3: the upstream answers \<open>not json\<close>.\<close>

theorem invalid_json_is_500_witness:
  "post_analyze (sample_runtime (Inr (sample_reply (u16 ''not json'')))) sample_config
      (sample_request (JStr (u16 '' hello '')))
   = (\<lparr>status = 500,
       json_body = JObj [(u16 ''error'', JStr (u16 ''AI did not return valid JSON. Adjust prompt.'')),
                         (u16 ''raw'', JStr (u16 ''not json''))]\<rparr>,
      [build_request (u16 ''sk-test'') (u16 ''hello'')])"
  using invalid_json_is_500 [of sample_config "u16 ''secret''"
          "sample_request (JStr (u16 '' hello ''))" "[(u16 ''text'', JStr (u16 '' hello ''))]"
          "u16 '' hello ''" "u16 ''sk-test''"
          "sample_runtime (Inr (sample_reply (u16 ''not json'')))"
          "sample_reply (u16 ''not json'')"
          "JObj [(u16 ''output'',
                    JArr [JObj [(u16 ''content'',
                      JArr [JObj [(u16 ''type'', JStr (u16 ''output_text'')),
                                  (u16 ''text'', JStr (u16 ''not json''))]])]])]"
          "u16 ''not json''" "Thrown (u16 ''SyntaxError'') (u16 ''Unexpected token'')"]
  by (simp add: sample_defs eval_defs)

text \<open>
  C4. When the request passes authentication and validation, the upstream call succeeds
  and the extracted raw output parses, the response is 200 and its body is the parsed
  value itself.
\<close>

theorem valid_json_is_200:
  assumes auth: "APP_KEY cfg = Some k" "k \<noteq> []" "x_app_key req = Some k"
      and text_ok: "body req = JObj kvs" "map_of kvs (u16 ''text'') = Some (JStr s)"
                   "trim s \<noteq> []" "length (trim s) \<le> 12000"
      and key: "OPENAI_API_KEY cfg = Some ak" "ak \<noteq> []"
      and reply: "fetch rt (build_request ak (trim s)) = Inr r" "resp_ok r"
                 "resp_json r = Inr data"
      and extracted: "extract_raw data = Inr raw" "to_string raw = Inr raw_text"
               "json_parse rt raw_text = Inr parsed"
  shows "post_analyze rt cfg req =
           (\<lparr>status = 200, json_body = parsed\<rparr>, [build_request ak (trim s)])"
proof -
  have rd: "read_text (body req) = Inr (trim s)"
    using text_ok(1,2) by (rule read_text_string)
  have "parse_and_respond rt raw = Inr \<lparr>status = 200, json_body = parsed\<rparr>"
    using extracted(2,3) by (simp add: parse_and_respond_def js_JSON_parse_def)
  then have "on_response rt r = Inr \<lparr>status = 200, json_body = parsed\<rparr>"
    using reply(2,3) extracted(1) by (simp add: on_response_def)
  then have "analyze_try rt cfg req =
      (Inr \<lparr>status = 200, json_body = parsed\<rparr>, [build_request ak (trim s)])"
    using analyze_calls_upstream[OF rd text_ok(3,4) key, of rt] reply(1) by simp
  then show ?thesis
    using auth by (simp add: post_analyze_authorized analyze_def)
qed

text \<open>Instance of C4: the upstream answers \<open>{}\<close>.\<close>

theorem valid_json_is_200_witness:
  "post_analyze (sample_runtime (Inr (sample_reply (u16 ''{}'')))) sample_config
      (sample_request (JStr (u16 '' hello '')))
   = (\<lparr>status = 200, json_body = JObj []\<rparr>, [build_request (u16 ''sk-test'') (u16 ''hello'')])"
  using valid_json_is_200 [of sample_config "u16 ''secret''"
          "sample_request (JStr (u16 '' hello ''))" "[(u16 ''text'', JStr (u16 '' hello ''))]"
          "u16 '' hello ''" "u16 ''sk-test''"
          "sample_runtime (Inr (sample_reply (u16 ''{}'')))"
          "sample_reply (u16 ''{}'')"
          "JObj [(u16 ''output'',
                    JArr [JObj [(u16 ''content'',
                      JArr [JObj [(u16 ''type'', JStr (u16 ''output_text'')),
                                  (u16 ''text'', JStr (u16 ''{}''))]])]])]"
          "JStr (u16 ''{}'')" "u16 ''{}''" "JObj []"]
  by (simp add: sample_defs eval_defs)

text \<open>
  C5 (as amended). For an inbound request that the body parser and the rate limiter let
  through to the route: when the \<open>X-APP-KEY\<close> header is absent or differs from the
  configured secret, or the secret is missing or empty, the response is 401 with body
  \<open>{ error: "Unauthorized" }\<close> whatever the parsed body is, and the handler is not
  reached: no upstream call is made.
\<close>

theorem unauthorized_past_middleware_is_401:
  assumes "express_json fw inb = Inr parsed_body" "rateLimit fw inb = None"
      and "header_x_app_key inb = None \<or> header_x_app_key inb \<noteq> APP_KEY cfg
             \<or> APP_KEY cfg = None \<or> APP_KEY cfg = Some []"
  shows "app_post_analyze fw rt cfg inb =
           Routed \<lparr>status = 401, json_body = JObj [(u16 ''error'', JStr (u16 ''Unauthorized''))]\<rparr> []"
proof -
  let ?req = "\<lparr>x_app_key = header_x_app_key inb, body = parsed_body\<rparr>"
  have "x_app_key ?req = None \<or> x_app_key ?req \<noteq> APP_KEY cfg
          \<or> APP_KEY cfg = None \<or> APP_KEY cfg = Some []"
    using assms(3) by simp
  then have "post_analyze rt cfg ?req =
      (\<lparr>status = 401, json_body = JObj [(u16 ''error'', JStr (u16 ''Unauthorized''))]\<rparr>, [])"
    by (rule post_analyze_unauthorized)
  then show ?thesis
    using assms(1,2) by (simp add: app_post_analyze_def)
qed

text \<open>Instances of C5: a wrong key and no key, on a body the parser accepts.\<close>

theorem unauthorized_past_middleware_is_401_witness:
  "express_json sample_front \<lparr>header_x_app_key = Some (u16 ''wrong''), raw_body = [0x7B, 0x7D]\<rparr>
     = Inr (JObj [])
   \<and> rateLimit sample_front \<lparr>header_x_app_key = Some (u16 ''wrong''), raw_body = [0x7B, 0x7D]\<rparr>
     = None
   \<and> app_post_analyze sample_front (sample_runtime (Inl NotPrimitive)) sample_config
        \<lparr>header_x_app_key = Some (u16 ''wrong''), raw_body = [0x7B, 0x7D]\<rparr>
     = Routed \<lparr>status = 401, json_body = JObj [(u16 ''error'', JStr (u16 ''Unauthorized''))]\<rparr> []
   \<and> app_post_analyze sample_front (sample_runtime (Inl NotPrimitive)) sample_config
        \<lparr>header_x_app_key = None, raw_body = [0x7B, 0x7D]\<rparr>
     = Routed \<lparr>status = 401, json_body = JObj [(u16 ''error'', JStr (u16 ''Unauthorized''))]\<rparr> []"
  using unauthorized_past_middleware_is_401 [of sample_front
          "\<lparr>header_x_app_key = Some (u16 ''wrong''), raw_body = [0x7B, 0x7D]\<rparr>" "JObj []"
          sample_config "sample_runtime (Inl NotPrimitive)"]
        unauthorized_past_middleware_is_401 [of sample_front
          "\<lparr>header_x_app_key = None, raw_body = [0x7B, 0x7D]\<rparr>" "JObj []"
          sample_config "sample_runtime (Inl NotPrimitive)"]
  by (simp add: sample_front_def sample_config_def u16_def)

text \<open>
  C5 as stated fails: the body parser is mounted before the route, so a request without
  a key whose body the parser refuses is answered by the parser's error, here with 400,
  before the key is looked at.
\<close>

theorem unauthorized_behind_parser_counterexample:
  "header_x_app_key \<lparr>header_x_app_key = None, raw_body = [0x7B]\<rparr> = None
   \<and> express_json sample_front \<lparr>header_x_app_key = None, raw_body = [0x7B]\<rparr> = Inl 400
   \<and> app_post_analyze sample_front (sample_runtime (Inl NotPrimitive)) sample_config
        \<lparr>header_x_app_key = None, raw_body = [0x7B]\<rparr>
     = Refused 400"
  by (simp add: app_post_analyze_def sample_front_def)

text \<open>
  C6. With the right key and a text that is empty after trimming, the response is 400
  with body \<open>{ error: "Le champ 'text' est requis." }\<close> and no upstream call is made.
\<close>

theorem empty_text_is_400:
  assumes "APP_KEY cfg = Some k" "k \<noteq> []" "x_app_key req = Some k"
      and "body req = JObj kvs" "map_of kvs (u16 ''text'') = Some (JStr s)" "trim s = []"
  shows "post_analyze rt cfg req =
           (\<lparr>status = 400,
             json_body = JObj [(u16 ''error'', JStr (u16 ''Le champ 'text' est requis.''))]\<rparr>, [])"
proof -
  have "read_text (body req) = Inr []"
    using assms(4-6) read_text_string by fastforce
  then have "analyze_try rt cfg req = (Inr \<lparr>status = 400, json_body = required_body\<rparr>, [])"
    by (simp add: analyze_try_def)
  then show ?thesis
    using assms(1-3) by (simp add: post_analyze_authorized analyze_def required_body_def)
qed

text \<open>Instance of C6: a text of three spaces.\<close>

theorem empty_text_is_400_witness:
  "trim (u16 ''   '') = []
   \<and> post_analyze (sample_runtime (Inl NotPrimitive)) sample_config (sample_request (JStr (u16 ''   ''))) =
     (\<lparr>status = 400,
       json_body = JObj [(u16 ''error'', JStr (u16 ''Le champ 'text' est requis.''))]\<rparr>, [])"
  using empty_text_is_400 [of sample_config "u16 ''secret''" "sample_request (JStr (u16 ''   ''))"
          "[(u16 ''text'', JStr (u16 ''   ''))]" "u16 ''   ''" "sample_runtime (Inl NotPrimitive)"]
  by (simp add: sample_config_def sample_request_def u16_def trim_def is_js_space_def)

text \<open>
  C7. When the upstream answers with a non-success status and its error text can be
  read, the response is 502 with body
  \<open>{ error: "OpenAI request failed", details: <that text> }\<close>, and the upstream has been
  called exactly once.
\<close>

theorem upstream_failure_is_502:
  assumes auth: "APP_KEY cfg = Some k" "k \<noteq> []" "x_app_key req = Some k"
      and text_ok: "body req = JObj kvs" "map_of kvs (u16 ''text'') = Some (JStr s)"
                   "trim s \<noteq> []" "length (trim s) \<le> 12000"
      and key: "OPENAI_API_KEY cfg = Some ak" "ak \<noteq> []"
      and reply: "fetch rt (build_request ak (trim s)) = Inr r" "\<not> resp_ok r"
                 "resp_text r = Inr errText"
  shows "post_analyze rt cfg req =
           (\<lparr>status = 502,
             json_body = JObj [(u16 ''error'', JStr (u16 ''OpenAI request failed'')),
                               (u16 ''details'', JStr errText)]\<rparr>,
            [build_request ak (trim s)])"
proof -
  have rd: "read_text (body req) = Inr (trim s)"
    using text_ok(1,2) by (rule read_text_string)
  have "on_response rt r = Inr \<lparr>status = 502, json_body = upstream_failed_body errText\<rparr>"
    using reply(2,3) by (simp add: on_response_def)
  then have "analyze_try rt cfg req =
      (Inr \<lparr>status = 502, json_body = upstream_failed_body errText\<rparr>,
       [build_request ak (trim s)])"
    using analyze_calls_upstream[OF rd text_ok(3,4) key, of rt] reply(1) by simp
  then show ?thesis
    using auth by (simp add: post_analyze_authorized analyze_def upstream_failed_body_def)
qed

text \<open>Instance of C7: the upstream refuses with \<open>rate limited\<close>.\<close>

theorem upstream_failure_is_502_witness:
  "post_analyze
      (sample_runtime (Inr \<lparr>resp_ok = False, resp_text = Inr (u16 ''rate limited''),
                             resp_json = Inr JNull\<rparr>))
      sample_config (sample_request (JStr (u16 '' hello '')))
   = (\<lparr>status = 502,
       json_body = JObj [(u16 ''error'', JStr (u16 ''OpenAI request failed'')),
                         (u16 ''details'', JStr (u16 ''rate limited''))]\<rparr>,
      [build_request (u16 ''sk-test'') (u16 ''hello'')])"
  using upstream_failure_is_502 [of sample_config "u16 ''secret''"
          "sample_request (JStr (u16 '' hello ''))" "[(u16 ''text'', JStr (u16 '' hello ''))]"
          "u16 '' hello ''" "u16 ''sk-test''"
          "sample_runtime (Inr \<lparr>resp_ok = False, resp_text = Inr (u16 ''rate limited''),
                             resp_json = Inr JNull\<rparr>)"
          "\<lparr>resp_ok = False, resp_text = Inr (u16 ''rate limited''), resp_json = Inr JNull\<rparr>"
          "u16 ''rate limited''"]
  by (simp add: sample_config_def sample_request_def sample_runtime_def u16_def trim_def
        is_js_space_def)

text \<open>
  C8. Whatever the runtime, the configuration and the request, the route answers with one
  of the statuses 200, 400, 401, 500 and 502; every answer but a 200 has a body whose
  first field is \<open>error\<close>, holding a string; a 400 or 401 body has the \<open>error\<close> field and
  nothing else (no \<open>details\<close>, no \<open>raw\<close>); an error thrown in the \<open>try\<close> block
  becomes a 500 with \<open>error: "Server error"\<close> and \<open>String(e)\<close> as \<open>details\<close>; and a
  200 is answered only when nothing has failed: the key matches, the text is a string
  whose trimmed form is not empty and within the limit, the credential is set, the
  upstream call resolves with a success status, its body is read, the raw output is
  extracted and parses, and the body of the answer is the parsed value. So every failure,
  whichever step it comes from, is answered with one of the error bodies.
\<close>

theorem failures_become_error_bodies:
  "(status (fst (post_analyze rt cfg req)) \<in> {200, 400, 401, 500, 502})
   \<and> (status (fst (post_analyze rt cfg req)) \<noteq> 200 \<longrightarrow>
        (\<exists>msg rest. json_body (fst (post_analyze rt cfg req)) = JObj ((u16 ''error'', JStr msg) # rest)))
   \<and> (status (fst (post_analyze rt cfg req)) = 400 \<or> status (fst (post_analyze rt cfg req)) = 401 \<longrightarrow>
        (\<exists>msg. json_body (fst (post_analyze rt cfg req)) = JObj [(u16 ''error'', JStr msg)]))
   \<and> (\<forall>e calls. requireAppKey cfg req = None \<and> analyze_try rt cfg req = (Inl e, calls) \<longrightarrow>
        post_analyze rt cfg req =
          (\<lparr>status = 500,
            json_body = JObj [(u16 ''error'', JStr (u16 ''Server error'')),
                              (u16 ''details'', JStr (error_string rt e))]\<rparr>, calls))
   \<and> (status (fst (post_analyze rt cfg req)) = 200 \<longrightarrow>
        (\<exists>k kvs s ak r data raw raw_text.
           APP_KEY cfg = Some k \<and> k \<noteq> [] \<and> x_app_key req = Some k \<and>
           body req = JObj kvs \<and> map_of kvs (u16 ''text'') = Some (JStr s) \<and>
           trim s \<noteq> [] \<and> length (trim s) \<le> 12000 \<and>
           OPENAI_API_KEY cfg = Some ak \<and> ak \<noteq> [] \<and>
           fetch rt (build_request ak (trim s)) = Inr r \<and> resp_ok r \<and>
           resp_json r = Inr data \<and> extract_raw data = Inr raw \<and>
           to_string raw = Inr raw_text \<and>
           json_parse rt raw_text = Inr (json_body (fst (post_analyze rt cfg req)))))"
proof -
  note shapes = post_analyze_shapes[of rt cfg req]
  have ok: "status (fst (post_analyze rt cfg req)) = 200 \<longrightarrow>
        (\<exists>k kvs s ak r data raw raw_text.
           APP_KEY cfg = Some k \<and> k \<noteq> [] \<and> x_app_key req = Some k \<and>
           body req = JObj kvs \<and> map_of kvs (u16 ''text'') = Some (JStr s) \<and>
           trim s \<noteq> [] \<and> length (trim s) \<le> 12000 \<and>
           OPENAI_API_KEY cfg = Some ak \<and> ak \<noteq> [] \<and>
           fetch rt (build_request ak (trim s)) = Inr r \<and> resp_ok r \<and>
           resp_json r = Inr data \<and> extract_raw data = Inr raw \<and>
           to_string raw = Inr raw_text \<and>
           json_parse rt raw_text = Inr (json_body (fst (post_analyze rt cfg req))))"
    by (rule impI) (rule ok_only_when_nothing_failed)
  from shapes ok show ?thesis
    by (elim conjE) (intro conjI, assumption+)
qed

text \<open>
  Instances of C8: a thrown error turned into a 500, a 400 with its one field, and a 200
  with the steps that led to it.
\<close>

theorem failures_become_error_bodies_witness:
  "requireAppKey sample_config (sample_request (JBool True)) = None
   \<and> analyze_try (sample_runtime (Inl NotPrimitive)) sample_config (sample_request (JBool True))
       = (Inl (NotAFunction (u16 ''trim'')), [])
   \<and> post_analyze (sample_runtime (Inl NotPrimitive)) sample_config (sample_request (JBool True))
       = (\<lparr>status = 500,
           json_body = JObj [(u16 ''error'', JStr (u16 ''Server error'')),
                             (u16 ''details'', JStr (u16 ''TypeError: trim is not a function''))]\<rparr>, [])
   \<and> status (fst (post_analyze (sample_runtime (Inl NotPrimitive)) sample_config
                    (sample_request (JStr [])))) = 400
   \<and> (\<exists>msg. json_body (fst (post_analyze (sample_runtime (Inl NotPrimitive)) sample_config
                    (sample_request (JStr [])))) = JObj [(u16 ''error'', JStr msg)])
   \<and> status (fst (post_analyze (sample_runtime (Inr (sample_reply (u16 ''{}'')))) sample_config
                    (sample_request (JStr (u16 ''hello''))))) = 200
   \<and> (\<exists>r raw_text. fetch (sample_runtime (Inr (sample_reply (u16 ''{}''))))
                       (build_request (u16 ''sk-test'') (u16 ''hello'')) = Inr r
          \<and> resp_ok r
          \<and> json_parse (sample_runtime (Inr (sample_reply (u16 ''{}'')))) raw_text =
              Inr (json_body (fst (post_analyze (sample_runtime (Inr (sample_reply (u16 ''{}''))))
                    sample_config (sample_request (JStr (u16 ''hello'')))))))"
proof -
  let ?rt = "sample_runtime (Inl NotPrimitive)"
  let ?ok = "sample_runtime (Inr (sample_reply (u16 ''{}'')))"
  have a: "requireAppKey sample_config (sample_request (JBool True)) = None"
    by (simp add: sample_defs requireAppKey_def env_unset_def u16_def)
  have b: "analyze_try ?rt sample_config (sample_request (JBool True))
       = (Inl (NotAFunction (u16 ''trim'')), [])"
    by (simp add: sample_defs analyze_try_def read_text_def get_field_opt_def js_or_def)
  have c: "status (fst (post_analyze ?rt sample_config (sample_request (JStr [])))) = 400"
    by (simp add: sample_defs post_analyze_def requireAppKey_def env_unset_def analyze_def
          analyze_try_def read_text_def get_field_opt_def js_or_def trim_def u16_def)
  have g: "status (fst (post_analyze ?ok sample_config (sample_request (JStr (u16 ''hello''))))) = 200"
    by (simp add: sample_defs post_analyze_def requireAppKey_def env_unset_def analyze_def
          analyze_try_def on_response_def parse_and_respond_def js_JSON_parse_def eval_defs
          Let_def)
  note t1 = failures_become_error_bodies [of ?rt sample_config "sample_request (JBool True)"]
  note t2 = failures_become_error_bodies [of ?rt sample_config "sample_request (JStr [])"]
  note t3 = failures_become_error_bodies [of ?ok sample_config "sample_request (JStr (u16 ''hello''))"]
  from t1 a b have d: "post_analyze ?rt sample_config (sample_request (JBool True))
       = (\<lparr>status = 500,
           json_body = JObj [(u16 ''error'', JStr (u16 ''Server error'')),
                             (u16 ''details'', JStr (error_string ?rt (NotAFunction (u16 ''trim''))))]\<rparr>, [])"
    by blast
  have e: "error_string ?rt (NotAFunction (u16 ''trim'')) = u16 ''TypeError: trim is not a function''"
    by (simp add: sample_runtime_def u16_def)
  from t2 c have f: "\<exists>msg. json_body (fst (post_analyze ?rt sample_config
                    (sample_request (JStr [])))) = JObj [(u16 ''error'', JStr msg)]"
    by blast
  from t3 g obtain k kvs s ak r data raw raw_text where chain:
    "body (sample_request (JStr (u16 ''hello''))) = JObj kvs"
    "map_of kvs (u16 ''text'') = Some (JStr s)"
    "OPENAI_API_KEY sample_config = Some ak"
    "fetch ?ok (build_request ak (trim s)) = Inr r" "resp_ok r"
    "json_parse ?ok raw_text =
       Inr (json_body (fst (post_analyze ?ok sample_config (sample_request (JStr (u16 ''hello''))))))"
    by blast
  from chain(1,2) have "s = u16 ''hello''"
    by (auto simp: sample_request_def)
  moreover have "trim (u16 ''hello'') = u16 ''hello''"
    by (simp add: trim_def u16_def is_js_space_def)
  moreover from chain(3) have "ak = u16 ''sk-test''"
    by (simp add: sample_config_def)
  ultimately have h: "\<exists>r raw_text. fetch ?ok (build_request (u16 ''sk-test'') (u16 ''hello'')) = Inr r
          \<and> resp_ok r
          \<and> json_parse ?ok raw_text =
              Inr (json_body (fst (post_analyze ?ok sample_config (sample_request (JStr (u16 ''hello''))))))"
    using chain(4-6) by auto
  from a b c d e f g h show ?thesis by simp
qed

text \<open>
  C9. The length check reads the trimmed text: with the right key and a string as
  \<open>text\<close> whose trimmed form has at most 12000 code units, the response is never the
  400 of a text too long, however long the untrimmed string is; and when the trimmed
  text is not empty and the upstream credential is set, exactly one upstream call is
  made, whose \<open>input\<close> is the trimmed text.
\<close>

theorem trimmed_text_is_checked_and_forwarded:
  assumes "APP_KEY cfg = Some k" "k \<noteq> []" "x_app_key req = Some k"
      and "body req = JObj kvs" "map_of kvs (u16 ''text'') = Some (JStr s)"
      and "length (trim s) \<le> 12000"
  shows "fst (post_analyze rt cfg req) \<noteq>
           \<lparr>status = 400,
            json_body = JObj [(u16 ''error'',
              JStr (u16 ''Texte trop long (max ~12 000 caract'' @ [0xE8] @ u16 ''res pour le MVP).''))]\<rparr>
       \<and> (trim s \<noteq> [] \<and> OPENAI_API_KEY cfg = Some ak \<and> ak \<noteq> [] \<longrightarrow>
            snd (post_analyze rt cfg req) = [build_request ak (trim s)]
            \<and> map (\<lambda>call. input (request_payload call)) (snd (post_analyze rt cfg req)) = [trim s])"
proof -
  have rt: "read_text (body req) = Inr (trim s)"
    using assms(4,5) by (rule read_text_string)
  have pa: "post_analyze rt cfg req = analyze rt cfg req"
    using assms(1-3) by (rule post_analyze_authorized)
  have differ: "required_body \<noteq> too_long_body"
    by (simp add: required_body_def too_long_body_def u16_def)
  have first: "fst (analyze rt cfg req) \<noteq> \<lparr>status = 400, json_body = too_long_body\<rparr>"
  proof (cases "trim s = []")
    case True
    with rt have "analyze_try rt cfg req = (Inr \<lparr>status = 400, json_body = required_body\<rparr>, [])"
      by (simp add: analyze_try_def)
    with differ show ?thesis by (simp add: analyze_def)
  next
    case False
    from status_past_checks[OF rt False assms(6), of rt cfg] show ?thesis by auto
  qed
  have second: "snd (analyze rt cfg req) = [build_request ak (trim s)]"
    if "trim s \<noteq> []" "OPENAI_API_KEY cfg = Some ak" "ak \<noteq> []"
    using analyze_calls_upstream[OF rt that(1) assms(6) that(2,3), of rt]
    by (simp add: analyze_def split: sum.splits)
  from first second show ?thesis
    by (auto simp: pa too_long_body_def build_request_def build_payload_def)
qed

text \<open>Instance of C9: the word \<open>hello\<close> after 13000 spaces.\<close>

theorem trimmed_text_is_checked_and_forwarded_witness:
  "length (replicate 13000 (0x20 :: 16 word) @ u16 ''hello'') = 13005
   \<and> length (trim (replicate 13000 (0x20 :: 16 word) @ u16 ''hello'')) \<le> 12000
   \<and> fst (post_analyze (sample_runtime (Inr (sample_reply (u16 ''{}'')))) sample_config
        (sample_request (JStr (replicate 13000 0x20 @ u16 ''hello'')))) \<noteq>
           \<lparr>status = 400,
            json_body = JObj [(u16 ''error'',
              JStr (u16 ''Texte trop long (max ~12 000 caract'' @ [0xE8] @ u16 ''res pour le MVP).''))]\<rparr>
   \<and> map (\<lambda>call. input (request_payload call))
        (snd (post_analyze (sample_runtime (Inr (sample_reply (u16 ''{}'')))) sample_config
           (sample_request (JStr (replicate 13000 0x20 @ u16 ''hello''))))) = [u16 ''hello'']"
proof -
  let ?s = "replicate 13000 (0x20 :: 16 word) @ u16 ''hello''"
  have len: "length ?s = 13005"
    by (simp add: u16_def)
  have t: "trim ?s = u16 ''hello''"
    using trim_padded[of "u16 ''hello''" "0x20" 13000 0] by (simp add: u16_def is_js_space_def)
  have small: "length (trim ?s) \<le> 12000" "trim ?s \<noteq> []"
    by (simp_all add: t) (simp_all add: u16_def)
  note w = trimmed_text_is_checked_and_forwarded [of sample_config "u16 ''secret''"
             "sample_request (JStr ?s)" "[(u16 ''text'', JStr ?s)]" ?s
             "sample_runtime (Inr (sample_reply (u16 ''{}'')))" "u16 ''sk-test''"]
  have pre: "APP_KEY sample_config = Some (u16 ''secret'')" "u16 ''secret'' \<noteq> []"
    "x_app_key (sample_request (JStr ?s)) = Some (u16 ''secret'')"
    "body (sample_request (JStr ?s)) = JObj [(u16 ''text'', JStr ?s)]"
    "map_of [(u16 ''text'', JStr ?s)] (u16 ''text'') = Some (JStr ?s)"
    "OPENAI_API_KEY sample_config = Some (u16 ''sk-test'')" "u16 ''sk-test'' \<noteq> []"
    by (simp_all add: sample_config_def sample_request_def) (simp_all add: u16_def)
  from w[OF pre(1-5) small(1)] pre(6,7) small(2) len small(1) show ?thesis
    by (simp only: t) (simp add: build_request_def build_payload_def)
qed

text \<open>
  C10. With the right key and a \<open>text\<close> that is truthy but not a string, the call of
  \<open>trim\<close> throws, the outer \<open>catch\<close> answers 500 with \<open>error: "Server error"\<close> and
  \<open>String(e)\<close> as \<open>details\<close>, and the answer is not the 400 of a missing text.
\<close>

theorem non_string_text_is_500:
  assumes "APP_KEY cfg = Some k" "k \<noteq> []" "x_app_key req = Some k"
      and "body req = JObj kvs" "map_of kvs (u16 ''text'') = Some t"
      and "truthy t" "\<forall>s. t \<noteq> JStr s"
  shows "post_analyze rt cfg req =
           (\<lparr>status = 500,
             json_body = JObj [(u16 ''error'', JStr (u16 ''Server error'')),
                               (u16 ''details'', JStr (error_string rt (NotAFunction (u16 ''trim''))))]\<rparr>,
            [])
       \<and> fst (post_analyze rt cfg req) \<noteq>
           \<lparr>status = 400,
            json_body = JObj [(u16 ''error'', JStr (u16 ''Le champ 'text' est requis.''))]\<rparr>"
proof -
  have "read_text (body req) = Inl (NotAFunction (u16 ''trim''))"
    using assms(4-7) by (simp add: read_text_def get_field_opt_def js_or_def call_trim_non_string)
  then have "analyze_try rt cfg req = (Inl (NotAFunction (u16 ''trim'')), [])"
    by (simp add: analyze_try_def)
  then have "post_analyze rt cfg req =
      (\<lparr>status = 500, json_body = server_error_body (error_string rt (NotAFunction (u16 ''trim'')))\<rparr>, [])"
    using assms(1-3) by (simp add: post_analyze_authorized analyze_def)
  then show ?thesis
    by (simp add: server_error_body_def)
qed

text \<open>Instances of C10: a number and an object as \<open>text\<close>.\<close>

theorem non_string_text_is_500_witness:
  "post_analyze (sample_runtime (Inl NotPrimitive)) sample_config (sample_request (JNum (u16 ''42'')))
   = (\<lparr>status = 500,
       json_body = JObj [(u16 ''error'', JStr (u16 ''Server error'')),
                         (u16 ''details'', JStr (u16 ''TypeError: trim is not a function''))]\<rparr>,
      [])
   \<and> post_analyze (sample_runtime (Inl NotPrimitive)) sample_config
        (sample_request (JObj [(u16 ''a'', JNull)]))
   = (\<lparr>status = 500,
       json_body = JObj [(u16 ''error'', JStr (u16 ''Server error'')),
                         (u16 ''details'', JStr (u16 ''TypeError: trim is not a function''))]\<rparr>,
      [])"
  using non_string_text_is_500 [of sample_config "u16 ''secret''"
          "sample_request (JNum (u16 ''42''))" "[(u16 ''text'', JNum (u16 ''42''))]"
          "JNum (u16 ''42'')" "sample_runtime (Inl NotPrimitive)"]
        non_string_text_is_500 [of sample_config "u16 ''secret''"
          "sample_request (JObj [(u16 ''a'', JNull)])" "[(u16 ''text'', JObj [(u16 ''a'', JNull)])]"
          "JObj [(u16 ''a'', JNull)]" "sample_runtime (Inl NotPrimitive)"]
  by (simp add: sample_defs u16_def)

end
